theory Spec2Isabelle
  imports Main
begin

section \<open>JavaScript values read by the handlers\<close>

text \<open>
  The page (\<^verbatim>\<open>src/app/page.tsx\<close>) keeps strings and nullable strings in React state and
  reads the fields of a parsed JSON object. A nullable or missing string is a
  \<^typ>\<open>string option\<close> (\<open>None\<close> for \<^verbatim>\<open>null\<close> and \<^verbatim>\<open>undefined\<close>). The handlers test
  such values for truthiness only: an absent value and the empty string are falsy.
\<close>

definition truthy :: "string option \<Rightarrow> bool" where
  "truthy v = (case v of None \<Rightarrow> False | Some t \<Rightarrow> t \<noteq> [])"

text \<open>\<^verbatim>\<open>v || d\<close> where \<open>d\<close> is a string literal.\<close>

definition or_else :: "string option \<Rightarrow> string \<Rightarrow> string" where
  "or_else v d = (case v of None \<Rightarrow> d | Some t \<Rightarrow> if t = [] then d else t)"

text \<open>
  \<^verbatim>\<open>String.prototype.trim\<close>: characters are the code units below 256, of which
  TAB, LF, VT, FF, CR, SPACE and NBSP are white space or line terminators.
\<close>

definition is_whitespace :: "char \<Rightarrow> bool" where
  "is_whitespace c =
     (c \<in> set [CHR 0x09, CHR 0x0A, CHR 0x0B, CHR 0x0C, CHR 0x0D, CHR 0x20, CHR 0xA0])"

definition trim :: "string \<Rightarrow> string" where
  "trim t = rev (dropWhile is_whitespace (rev (dropWhile is_whitespace t)))"


section \<open>Component state\<close>

datatype LoginStep = Email | Password | TwoFA | Success

text \<open>
  \<^verbatim>\<open>challengeMetadata\<close> is typed \<^verbatim>\<open>any\<close>; the page reads three members of it. The
  handlers only store it (\<^verbatim>\<open>data.challengeMetadata || null\<close>: an object is truthy, so
  the stored value is the received one, or \<^verbatim>\<open>null\<close> when it is missing).
\<close>

record ChallengeMetadata =
  officeVerificationStep :: "string option"
  maskedEmail :: "string option"
  hasCodeLink :: bool

text \<open>The ten \<^verbatim>\<open>useState\<close> cells of \<^verbatim>\<open>Home\<close>, with their initial values below.\<close>

record Home =
  step :: LoginStep
  email :: string
  password :: string
  twoFACode :: string
  showPassword :: bool
  sessionId :: "string option"
  isLoading :: bool
  error :: "string option"
  challengeType :: "string option"
  challengeMetadata :: "ChallengeMetadata option"

definition initial :: Home where
  "initial = \<lparr> step = Email, email = [], password = [], twoFACode = [],
     showPassword = False, sessionId = None, isLoading = False, error = None,
     challengeType = None, challengeMetadata = None \<rparr>"


section \<open>Server responses\<close>

text \<open>
  The parsed body \<^verbatim>\<open>data\<close> is untyped in the source. Its members are typed as section 6
  of the specification declares the three response shapes (one record covers all three;
  a member that a shape does not have is \<open>None\<close>).
\<close>

record response =
  data_success :: bool
  data_sessionId :: "string option"
  data_status :: "string option"
  data_challengeType :: "string option"
  data_challengeMetadata :: "ChallengeMetadata option"
  data_message :: "string option"

text \<open>
  What \<^verbatim>\<open>await fetch(...)\<close> followed by \<^verbatim>\<open>await response.json()\<close> yields: the parsed
  body, or an exception (network failure, unparsable body) caught by \<^verbatim>\<open>catch\<close>.
\<close>

datatype outcome = Response response | Failure

text \<open>The request a handler posts: endpoint and JSON body.\<close>

datatype request =
    PostInitiate string
  | PostPassword "string option" string
  | Post2FA "string option" string


section \<open>The handlers\<close>

text \<open>
  Each submit handler is split where the source suspends: the guard that returns early,
  the updates before \<^verbatim>\<open>await\<close>, and the \<^verbatim>\<open>try\<close>/\<^verbatim>\<open>catch\<close>/\<^verbatim>\<open>finally\<close> that runs when
  the call settles. After \<^verbatim>\<open>await\<close> the handlers write state only from \<^verbatim>\<open>data\<close> and
  constants, so the continuation is a function of the outcome and the current state.
\<close>

subsection \<open>\<^verbatim>\<open>handleEmailSubmit\<close>\<close>

definition handleEmailSubmit_returns :: "Home \<Rightarrow> bool" where
  "handleEmailSubmit_returns s = (trim (email s) = [] \<or> isLoading s)"

definition handleEmailSubmit_start :: "Home \<Rightarrow> Home" where
  "handleEmailSubmit_start s = s\<lparr>isLoading := True, error := None\<rparr>"

definition handleEmailSubmit_request :: "Home \<Rightarrow> request" where
  "handleEmailSubmit_request s = PostInitiate (email s)"

definition handleEmailSubmit_try :: "outcome \<Rightarrow> Home \<Rightarrow> Home" where
  "handleEmailSubmit_try out s =
     (case out of
        Failure \<Rightarrow> s\<lparr>error := Some ''An error occurred. Please try again.''\<rparr>
      | Response d \<Rightarrow>
          if data_success d then
            (let s1 = s\<lparr>sessionId := data_sessionId d\<rparr> in
             if data_status d = Some ''requires_password'' then s1\<lparr>step := Password\<rparr>
             else s1\<lparr>step := Password\<rparr>)
          else s\<lparr>error := Some (or_else (data_message d) ''Failed to initiate login'')\<rparr>)"

definition handleEmailSubmit_settle :: "outcome \<Rightarrow> Home \<Rightarrow> Home" where
  "handleEmailSubmit_settle out s = (handleEmailSubmit_try out s)\<lparr>isLoading := False\<rparr>"

definition handleEmailSubmit :: "outcome \<Rightarrow> Home \<Rightarrow> request option \<times> Home" where
  "handleEmailSubmit out s =
     (if handleEmailSubmit_returns s then (None, s)
      else (Some (handleEmailSubmit_request s),
            handleEmailSubmit_settle out (handleEmailSubmit_start s)))"

subsection \<open>\<^verbatim>\<open>handlePasswordSubmit\<close>\<close>

definition handlePasswordSubmit_returns :: "Home \<Rightarrow> bool" where
  "handlePasswordSubmit_returns s =
     (trim (password s) = [] \<or> isLoading s \<or> \<not> truthy (sessionId s))"

definition handlePasswordSubmit_start :: "Home \<Rightarrow> Home" where
  "handlePasswordSubmit_start s = s\<lparr>isLoading := True, error := None\<rparr>"

definition handlePasswordSubmit_request :: "Home \<Rightarrow> request" where
  "handlePasswordSubmit_request s = PostPassword (sessionId s) (password s)"

definition handlePasswordSubmit_try :: "outcome \<Rightarrow> Home \<Rightarrow> Home" where
  "handlePasswordSubmit_try out s =
     (case out of
        Failure \<Rightarrow> s\<lparr>error := Some ''An error occurred. Please try again.''\<rparr>
      | Response d \<Rightarrow>
          if data_success d then
            (if truthy (data_challengeType d) then
               s\<lparr>challengeType := data_challengeType d,
                 challengeMetadata := data_challengeMetadata d,
                 step := TwoFA\<rparr>
             else if data_status d = Some ''authenticated'' \<or> data_status d = Some ''completed''
               then s\<lparr>step := Success\<rparr>
             else s\<lparr>step := Success\<rparr>)
          else
            (if truthy (data_challengeType d) then
               s\<lparr>challengeType := data_challengeType d,
                 challengeMetadata := data_challengeMetadata d,
                 step := TwoFA\<rparr>
             else
               s\<lparr>error := Some (or_else (data_message d) ''Invalid password or login failed''),
                 password := []\<rparr>))"

definition handlePasswordSubmit_settle :: "outcome \<Rightarrow> Home \<Rightarrow> Home" where
  "handlePasswordSubmit_settle out s = (handlePasswordSubmit_try out s)\<lparr>isLoading := False\<rparr>"

definition handlePasswordSubmit :: "outcome \<Rightarrow> Home \<Rightarrow> request option \<times> Home" where
  "handlePasswordSubmit out s =
     (if handlePasswordSubmit_returns s then (None, s)
      else (Some (handlePasswordSubmit_request s),
            handlePasswordSubmit_settle out (handlePasswordSubmit_start s)))"

subsection \<open>\<^verbatim>\<open>handle2FASubmit\<close>\<close>

definition isPush :: "Home \<Rightarrow> bool" where
  "isPush s = (challengeType s = Some ''APP'' \<or> challengeType s = Some ''PUSH'')"

definition handle2FASubmit_returns :: "Home \<Rightarrow> bool" where
  "handle2FASubmit_returns s =
     ((\<not> isPush s \<and> trim (twoFACode s) = []) \<or> (isLoading s \<or> \<not> truthy (sessionId s)))"

definition handle2FASubmit_start :: "Home \<Rightarrow> Home" where
  "handle2FASubmit_start s = s\<lparr>isLoading := True, error := None\<rparr>"

definition handle2FASubmit_request :: "Home \<Rightarrow> request" where
  "handle2FASubmit_request s = Post2FA (sessionId s) (twoFACode s)"

definition handle2FASubmit_try :: "outcome \<Rightarrow> Home \<Rightarrow> Home" where
  "handle2FASubmit_try out s =
     (case out of
        Failure \<Rightarrow> s\<lparr>error := Some ''An error occurred. Please try again.''\<rparr>
      | Response d \<Rightarrow>
          if data_success d then s\<lparr>step := Success\<rparr>
          else
            (if truthy (data_challengeType d) then
               (let s1 = s\<lparr>challengeType := data_challengeType d,
                           challengeMetadata := data_challengeMetadata d,
                           twoFACode := []\<rparr>
                in if truthy (data_message d) then s1\<lparr>error := data_message d\<rparr> else s1)
             else s\<lparr>error := Some (or_else (data_message d) ''Invalid code'')\<rparr>))"

definition handle2FASubmit_settle :: "outcome \<Rightarrow> Home \<Rightarrow> Home" where
  "handle2FASubmit_settle out s = (handle2FASubmit_try out s)\<lparr>isLoading := False\<rparr>"

definition handle2FASubmit :: "outcome \<Rightarrow> Home \<Rightarrow> request option \<times> Home" where
  "handle2FASubmit out s =
     (if handle2FASubmit_returns s then (None, s)
      else (Some (handle2FASubmit_request s),
            handle2FASubmit_settle out (handle2FASubmit_start s)))"

subsection \<open>\<^verbatim>\<open>handleBack\<close>\<close>

definition handleBack :: "Home \<Rightarrow> Home" where
  "handleBack s =
     (let s1 = (if step s = Password then s\<lparr>step := Email, password := []\<rparr>
                else if step s = TwoFA then s\<lparr>step := Password, twoFACode := []\<rparr>
                else s)
      in s1\<lparr>error := None\<rparr>)"


section \<open>The page as a transition system\<close>

text \<open>
  The page together with the calls that are suspended at \<^verbatim>\<open>await\<close> and the log of the
  requests sent. An event is a user action on a control of the rendered page, or a
  pending call settling with an outcome. A control acts only when the JSX renders it
  (the inputs and forms are rendered for their step alone, the back button at the
  password and 2FA steps, the code input unless the challenge is a push) and when it is
  not \<^verbatim>\<open>disabled\<close> (the inputs and the back button are disabled while \<^verbatim>\<open>isLoading\<close>).
  A form submission always reaches its handler, whose own guard decides. The
  ``I have a code'' link only prevents the default action and is left out. Every
  handler reads the state of the latest render, which is the current state: the page is
  rendered again between two events.
\<close>

datatype call = InitiateCall | PasswordCall | TwoFACall

record world =
  ui :: Home
  pending :: "call list"
  sent :: "request list"

datatype event =
    ChangeEmail string
  | ChangePassword string
  | ChangeCode string
  | ToggleShowPassword
  | ClickBack
  | SubmitEmailForm
  | SubmitPasswordForm
  | Submit2FAForm
  | Settle nat outcome

definition settle :: "call \<Rightarrow> outcome \<Rightarrow> Home \<Rightarrow> Home" where
  "settle c out s =
     (case c of
        InitiateCall \<Rightarrow> handleEmailSubmit_settle out s
      | PasswordCall \<Rightarrow> handlePasswordSubmit_settle out s
      | TwoFACall \<Rightarrow> handle2FASubmit_settle out s)"

fun fire :: "event \<Rightarrow> world \<Rightarrow> world" where
  "fire (ChangeEmail v) w =
     (if step (ui w) = Email \<and> \<not> isLoading (ui w) then w\<lparr>ui := (ui w)\<lparr>email := v\<rparr>\<rparr> else w)"
| "fire (ChangePassword v) w =
     (if step (ui w) = Password \<and> \<not> isLoading (ui w) then w\<lparr>ui := (ui w)\<lparr>password := v\<rparr>\<rparr>
      else w)"
| "fire (ChangeCode v) w =
     (if step (ui w) = TwoFA \<and> \<not> isPush (ui w) \<and> \<not> isLoading (ui w)
      then w\<lparr>ui := (ui w)\<lparr>twoFACode := v\<rparr>\<rparr> else w)"
| "fire ToggleShowPassword w =
     (if step (ui w) = Password then w\<lparr>ui := (ui w)\<lparr>showPassword := \<not> showPassword (ui w)\<rparr>\<rparr>
      else w)"
| "fire ClickBack w =
     (if (step (ui w) = Password \<or> step (ui w) = TwoFA) \<and> \<not> isLoading (ui w)
      then w\<lparr>ui := handleBack (ui w)\<rparr> else w)"
| "fire SubmitEmailForm w =
     (if step (ui w) = Email \<and> \<not> handleEmailSubmit_returns (ui w)
      then w\<lparr>ui := handleEmailSubmit_start (ui w),
             pending := pending w @ [InitiateCall],
             sent := sent w @ [handleEmailSubmit_request (ui w)]\<rparr>
      else w)"
| "fire SubmitPasswordForm w =
     (if step (ui w) = Password \<and> \<not> handlePasswordSubmit_returns (ui w)
      then w\<lparr>ui := handlePasswordSubmit_start (ui w),
             pending := pending w @ [PasswordCall],
             sent := sent w @ [handlePasswordSubmit_request (ui w)]\<rparr>
      else w)"
| "fire Submit2FAForm w =
     (if step (ui w) = TwoFA \<and> \<not> handle2FASubmit_returns (ui w)
      then w\<lparr>ui := handle2FASubmit_start (ui w),
             pending := pending w @ [TwoFACall],
             sent := sent w @ [handle2FASubmit_request (ui w)]\<rparr>
      else w)"
| "fire (Settle i out) w =
     (if i < length (pending w)
      then w\<lparr>ui := settle (pending w ! i) out (ui w),
             pending := take i (pending w) @ drop (Suc i) (pending w)\<rparr>
      else w)"

definition start :: world where
  "start = \<lparr> ui = initial, pending = [], sent = [] \<rparr>"

fun run_from :: "world \<Rightarrow> event list \<Rightarrow> world" where
  "run_from w [] = w"
| "run_from w (e # es) = run_from (fire e w) es"

definition run :: "event list \<Rightarrow> world" where
  "run es = run_from start es"

text \<open>
  Section 6 of the specification requires \<^verbatim>\<open>sessionId\<close> in an initiate response whose
  \<^verbatim>\<open>success\<close> is true. \<open>initiate_contract w es\<close> holds when every initiate call that
  settles with a response along \<open>es\<close>, started from \<open>w\<close>, honours that.
\<close>

definition well_formed_initiate :: "response \<Rightarrow> bool" where
  "well_formed_initiate d = (data_success d \<longrightarrow> data_sessionId d \<noteq> None)"

fun initiate_contract :: "world \<Rightarrow> event list \<Rightarrow> bool" where
  "initiate_contract w [] = True"
| "initiate_contract w (Settle i (Response d) # es) =
     ((i < length (pending w) \<and> pending w ! i = InitiateCall \<longrightarrow> well_formed_initiate d)
      \<and> initiate_contract (fire (Settle i (Response d)) w) es)"
| "initiate_contract w (e # es) = initiate_contract (fire e w) es"


section \<open>What the specification states, as predicates on the state before and after\<close>

text \<open>
  A string is present in a response when it is truthy: a missing member and the empty
  string alike make the handlers take the other branch.

  The three-way classification of a verify-secret response (specification, section 4.1,
  \<^verbatim>\<open>submitSecret\<close>), written from the specification's words: \<open>s\<close> is the state in which
  the secret was submitted, \<open>s'\<close> the state once the response has been handled.
\<close>

definition spec_submitSecret_classified :: "response \<Rightarrow> Home \<Rightarrow> Home \<Rightarrow> bool" where
  "spec_submitSecret_classified d s s' =
     (if truthy (data_challengeType d) then
        challengeType s' = data_challengeType d \<and>
        challengeMetadata s' = data_challengeMetadata d \<and>
        twoFACode s' = [] \<and> step s' = TwoFA
      else if data_success d then step s' = Success
      else
        error s' = Some (or_else (data_message d) ''Invalid password or login failed'') \<and>
        password s' = [] \<and> step s' = Password)"

text \<open>
  A transport failure (specification, section 7): the generic retry message, the same
  step, the captured credentials and the session handle unchanged, nothing in flight.
\<close>

definition spec_transport_failure :: "Home \<Rightarrow> Home \<Rightarrow> bool" where
  "spec_transport_failure s s' =
     (error s' = Some ''An error occurred. Please try again.'' \<and>
      step s' = step s \<and> email s' = email s \<and> password s' = password s \<and>
      twoFACode s' = twoFACode s \<and> sessionId s' = sessionId s \<and> \<not> isLoading s')"


section \<open>Invariants of the transition system\<close>

text \<open>The step at which the form that starts a call is rendered.\<close>

definition step_of :: "call \<Rightarrow> LoginStep" where
  "step_of c =
     (case c of InitiateCall \<Rightarrow> Email | PasswordCall \<Rightarrow> Password | TwoFACall \<Rightarrow> TwoFA)"

text \<open>
  Either nothing is pending and \<^verbatim>\<open>isLoading\<close> is false, or exactly one call is pending,
  \<^verbatim>\<open>isLoading\<close> is true and the page still shows the step that started the call.
\<close>

definition gate_inv :: "world \<Rightarrow> bool" where
  "gate_inv w =
     ((pending w = [] \<and> \<not> isLoading (ui w)) \<or>
      (\<exists>c. pending w = [c] \<and> isLoading (ui w) \<and> step (ui w) = step_of c))"

definition field_inv :: "Home \<Rightarrow> bool" where
  "field_inv s =
     ((step s = Email \<or> step s = Password \<longrightarrow> twoFACode s = []) \<and>
      (step s = TwoFA \<longrightarrow> truthy (challengeType s)))"

definition handle_inv :: "Home \<Rightarrow> bool" where
  "handle_inv s = (step s \<noteq> Email \<longrightarrow> sessionId s \<noteq> None)"


section \<open>Sample responses and runs\<close>

text \<open>
  The responses of scenarios A, B and C of the specification (section 8), two responses
  whose \<^verbatim>\<open>success\<close> is true and that carry a challenge type, and the runs that bring
  the page to the password step and to the 2FA step.
\<close>

definition no_members :: response where
  "no_members = \<lparr> data_success = False, data_sessionId = None, data_status = None,
     data_challengeType = None, data_challengeMetadata = None, data_message = None \<rparr>"

definition response_A :: response where
  "response_A = no_members\<lparr>data_success := True, data_sessionId := Some ''s1''\<rparr>"

definition response_B :: response where
  "response_B = no_members\<lparr>data_message := Some ''wrong''\<rparr>"

definition response_C :: response where
  "response_C = no_members\<lparr>data_challengeType := Some ''SMS''\<rparr>"

definition response_A_challenge :: response where
  "response_A_challenge = response_A\<lparr>data_challengeType := Some ''SMS''\<rparr>"

definition response_success_challenge :: response where
  "response_success_challenge =
     no_members\<lparr>data_success := True, data_challengeType := Some ''EMAIL''\<rparr>"

definition to_password :: "event list" where
  "to_password = [ChangeEmail ''a@x.com'', SubmitEmailForm, Settle 0 (Response response_A)]"

definition to_password_typed :: "event list" where
  "to_password_typed = to_password @ [ChangePassword ''pw'']"

definition to_2fa :: "event list" where
  "to_2fa = to_password_typed @ [SubmitPasswordForm, Settle 0 (Response response_C)]"

definition to_2fa_typed :: "event list" where
  "to_2fa_typed = to_2fa @ [ChangeCode ''123456'']"


section \<open>Evaluating the handlers\<close>

lemmas handler_defs =
  handleEmailSubmit_def handleEmailSubmit_returns_def handleEmailSubmit_start_def
  handleEmailSubmit_request_def handleEmailSubmit_try_def handleEmailSubmit_settle_def
  handlePasswordSubmit_def handlePasswordSubmit_returns_def handlePasswordSubmit_start_def
  handlePasswordSubmit_request_def handlePasswordSubmit_try_def handlePasswordSubmit_settle_def
  handle2FASubmit_def handle2FASubmit_returns_def handle2FASubmit_start_def
  handle2FASubmit_request_def handle2FASubmit_try_def handle2FASubmit_settle_def

lemmas sample_defs =
  run_def start_def initial_def settle_def isPush_def handleBack_def truthy_def or_else_def
  trim_def is_whitespace_def no_members_def response_A_def response_B_def response_C_def
  response_A_challenge_def response_success_challenge_def
  to_password_def to_password_typed_def to_2fa_def to_2fa_typed_def

lemma ui_to_password_typed:
  "ui (run to_password_typed) = initial\<lparr>step := Password, email := ''a@x.com'',
     password := ''pw'', sessionId := Some ''s1''\<rparr>"
  by (simp add: sample_defs handler_defs)

lemma ui_to_2fa_typed:
  "ui (run to_2fa_typed) = initial\<lparr>step := TwoFA, email := ''a@x.com'',
     password := ''pw'', twoFACode := ''123456'', sessionId := Some ''s1'',
     challengeType := Some ''SMS''\<rparr>"
  by (simp add: sample_defs handler_defs)


section \<open>Preservation of the invariants\<close>

lemma settle_isLoading: "\<not> isLoading (settle c out s)"
  by (cases c) (simp_all add: settle_def handleEmailSubmit_settle_def
      handlePasswordSubmit_settle_def handle2FASubmit_settle_def)

lemma start_fields:
  "handleEmailSubmit_start s = s\<lparr>isLoading := True, error := None\<rparr>"
  "handlePasswordSubmit_start s = s\<lparr>isLoading := True, error := None\<rparr>"
  "handle2FASubmit_start s = s\<lparr>isLoading := True, error := None\<rparr>"
  by (simp_all add: handleEmailSubmit_start_def handlePasswordSubmit_start_def
      handle2FASubmit_start_def)

lemma returns_isLoading:
  "isLoading s \<Longrightarrow> handleEmailSubmit_returns s"
  "isLoading s \<Longrightarrow> handlePasswordSubmit_returns s"
  "isLoading s \<Longrightarrow> handle2FASubmit_returns s"
  by (simp_all add: handleEmailSubmit_returns_def handlePasswordSubmit_returns_def
      handle2FASubmit_returns_def)

lemma handleBack_isLoading: "isLoading (handleBack s) = isLoading s"
  by (simp add: handleBack_def Let_def)

lemma fire_Settle_single:
  "pending w = [c] \<Longrightarrow>
   fire (Settle i out) w = (if i = 0 then w\<lparr>ui := settle c out (ui w), pending := []\<rparr> else w)"
  by simp

lemma fire_Settle_none: "pending w = [] \<Longrightarrow> fire (Settle i out) w = w"
  by simp

lemma gate_inv_fire: "gate_inv w \<Longrightarrow> gate_inv (fire e w)"
proof -
  assume g: "gate_inv w"
  show ?thesis
  proof (cases e)
    case (Settle i out)
    from g consider "pending w = []" | c where "pending w = [c]"
      by (auto simp: gate_inv_def)
    then show ?thesis
    proof cases
      case 1
      then show ?thesis using g Settle by (simp add: fire_Settle_none)
    next
      case 2
      then show ?thesis using g Settle
        by (simp add: fire_Settle_single gate_inv_def settle_isLoading)
    qed
  next
    case ClickBack
    then show ?thesis using g by (auto simp: gate_inv_def handleBack_isLoading)
  next
    case SubmitEmailForm
    then show ?thesis using g
      by (auto simp: gate_inv_def start_fields step_of_def dest: returns_isLoading)
  next
    case SubmitPasswordForm
    then show ?thesis using g
      by (auto simp: gate_inv_def start_fields step_of_def dest: returns_isLoading)
  next
    case Submit2FAForm
    then show ?thesis using g
      by (auto simp: gate_inv_def start_fields step_of_def dest: returns_isLoading)
  qed (use g in \<open>auto simp: gate_inv_def\<close>)
qed

lemma field_inv_Email_settle:
  "field_inv s \<Longrightarrow> step s = Email \<Longrightarrow> field_inv (handleEmailSubmit_settle out s)"
  by (cases out)
     (simp_all add: field_inv_def handleEmailSubmit_settle_def handleEmailSubmit_try_def Let_def)

lemma field_inv_Password_settle:
  "field_inv s \<Longrightarrow> step s = Password \<Longrightarrow> field_inv (handlePasswordSubmit_settle out s)"
  by (cases out)
     (simp_all add: field_inv_def handlePasswordSubmit_settle_def handlePasswordSubmit_try_def)

lemma field_inv_2FA_settle:
  "field_inv s \<Longrightarrow> step s = TwoFA \<Longrightarrow> field_inv (handle2FASubmit_settle out s)"
  by (cases out)
     (simp_all add: field_inv_def handle2FASubmit_settle_def handle2FASubmit_try_def Let_def)

lemma field_inv_settle:
  "field_inv s \<Longrightarrow> step s = step_of c \<Longrightarrow> field_inv (settle c out s)"
  by (cases c)
     (simp_all add: settle_def step_of_def field_inv_Email_settle field_inv_Password_settle
        field_inv_2FA_settle)

lemma field_inv_handleBack: "field_inv s \<Longrightarrow> field_inv (handleBack s)"
  by (simp add: field_inv_def handleBack_def Let_def)

lemma field_inv_fire:
  assumes g: "gate_inv w" and f: "field_inv (ui w)"
  shows "field_inv (ui (fire e w))"
proof (cases e)
  case (Settle i out)
  from g consider "pending w = []" | c where "pending w = [c]" "step (ui w) = step_of c"
    by (auto simp: gate_inv_def)
  then show ?thesis
  proof cases
    case 1
    then show ?thesis using f Settle by (simp add: fire_Settle_none)
  next
    case 2
    then show ?thesis using f Settle by (simp add: fire_Settle_single field_inv_settle)
  qed
next
  case ClickBack
  then show ?thesis using f by (simp add: field_inv_handleBack)
next
  case (ChangeCode v)
  then show ?thesis using f by (simp add: field_inv_def)
next
  case (ChangeEmail v)
  then show ?thesis using f by (simp add: field_inv_def)
next
  case (ChangePassword v)
  then show ?thesis using f by (simp add: field_inv_def)
next
  case ToggleShowPassword
  then show ?thesis using f by (simp add: field_inv_def)
next
  case SubmitEmailForm
  then show ?thesis using f by (simp add: field_inv_def start_fields)
next
  case SubmitPasswordForm
  then show ?thesis using f by (simp add: field_inv_def start_fields)
next
  case Submit2FAForm
  then show ?thesis using f by (simp add: field_inv_def start_fields)
qed

lemma inv_run_from:
  "gate_inv w \<Longrightarrow> field_inv (ui w) \<Longrightarrow>
   gate_inv (run_from w es) \<and> field_inv (ui (run_from w es))"
  by (induction es arbitrary: w) (simp_all add: gate_inv_fire field_inv_fire)

lemma inv_start: "gate_inv start" "field_inv (ui start)" "handle_inv (ui start)"
  by (simp_all add: gate_inv_def field_inv_def handle_inv_def start_def initial_def)

lemma inv_run: "gate_inv (run es) \<and> field_inv (ui (run es))"
  unfolding run_def by (rule inv_run_from) (rule inv_start)+

text \<open>The session handle, for runs in which the server honours the initiate contract.\<close>

lemma initiate_contract_Cons:
  "initiate_contract w (e # es) =
     ((\<forall>i d. e = Settle i (Response d) \<and> i < length (pending w) \<and> pending w ! i = InitiateCall
          \<longrightarrow> well_formed_initiate d)
      \<and> initiate_contract (fire e w) es)"
proof (cases e)
  case (Settle i out)
  then show ?thesis by (cases out) simp_all
qed simp_all

lemma handle_inv_Email_settle:
  assumes "handle_inv s" and "\<And>d. out = Response d \<Longrightarrow> well_formed_initiate d"
  shows "handle_inv (handleEmailSubmit_settle out s)"
  using assms
  by (cases out)
     (auto simp: handle_inv_def handleEmailSubmit_settle_def handleEmailSubmit_try_def Let_def
        well_formed_initiate_def)

lemma handle_inv_Password_settle:
  "handle_inv s \<Longrightarrow> step s = Password \<Longrightarrow> handle_inv (handlePasswordSubmit_settle out s)"
  by (cases out)
     (simp_all add: handle_inv_def handlePasswordSubmit_settle_def handlePasswordSubmit_try_def)

lemma handle_inv_2FA_settle:
  "handle_inv s \<Longrightarrow> step s = TwoFA \<Longrightarrow> handle_inv (handle2FASubmit_settle out s)"
  by (cases out)
     (simp_all add: handle_inv_def handle2FASubmit_settle_def handle2FASubmit_try_def Let_def)

lemma handle_inv_handleBack: "handle_inv s \<Longrightarrow> handle_inv (handleBack s)"
  by (simp add: handle_inv_def handleBack_def Let_def)

lemma handle_inv_fire:
  assumes g: "gate_inv w" and h: "handle_inv (ui w)"
    and c: "\<forall>i d. e = Settle i (Response d) \<and> i < length (pending w) \<and>
                   pending w ! i = InitiateCall \<longrightarrow> well_formed_initiate d"
  shows "handle_inv (ui (fire e w))"
proof (cases e)
  case (Settle i out)
  from g consider "pending w = []" | k where "pending w = [k]" "step (ui w) = step_of k"
    by (auto simp: gate_inv_def)
  then show ?thesis
  proof cases
    case 1
    then show ?thesis using h Settle by (simp add: fire_Settle_none)
  next
    case 2
    show ?thesis
    proof (cases "i = 0")
      case False
      then show ?thesis using 2 h Settle by (simp add: fire_Settle_single)
    next
      case True
      have "handle_inv (settle k out (ui w))"
      proof (cases k)
        case InitiateCall
        have "\<And>d. out = Response d \<Longrightarrow> well_formed_initiate d"
          using c Settle True 2(1) InitiateCall by simp
        then show ?thesis using h InitiateCall
          by (simp add: settle_def handle_inv_Email_settle)
      next
        case PasswordCall
        then show ?thesis using h 2(2)
          by (simp add: settle_def step_of_def handle_inv_Password_settle)
      next
        case TwoFACall
        then show ?thesis using h 2(2)
          by (simp add: settle_def step_of_def handle_inv_2FA_settle)
      qed
      then show ?thesis using 2 True Settle by (simp add: fire_Settle_single)
    qed
  qed
next
  case ClickBack
  then show ?thesis using h by (simp add: handle_inv_handleBack)
next
  case (ChangeCode v)
  then show ?thesis using h by (simp add: handle_inv_def)
next
  case (ChangeEmail v)
  then show ?thesis using h by (simp add: handle_inv_def)
next
  case (ChangePassword v)
  then show ?thesis using h by (simp add: handle_inv_def)
next
  case ToggleShowPassword
  then show ?thesis using h by (simp add: handle_inv_def)
next
  case SubmitEmailForm
  then show ?thesis using h by (simp add: handle_inv_def start_fields)
next
  case SubmitPasswordForm
  then show ?thesis using h by (simp add: handle_inv_def start_fields)
next
  case Submit2FAForm
  then show ?thesis using h by (simp add: handle_inv_def start_fields)
qed

lemma handle_inv_run_from:
  "gate_inv w \<Longrightarrow> handle_inv (ui w) \<Longrightarrow> initiate_contract w es \<Longrightarrow>
   handle_inv (ui (run_from w es))"
proof (induction es arbitrary: w)
  case Nil
  then show ?case by simp
next
  case (Cons e es)
  from Cons.prems(3) [unfolded initiate_contract_Cons] have c:
    "\<forall>i d. e = Settle i (Response d) \<and> i < length (pending w) \<and>
            pending w ! i = InitiateCall \<longrightarrow> well_formed_initiate d"
    and rest: "initiate_contract (fire e w) es"
    by blast+
  have "handle_inv (ui (run_from (fire e w) es))"
    using Cons.prems(1,2) c rest
    by (intro Cons.IH gate_inv_fire handle_inv_fire)
  then show ?case by simp
qed

lemma handle_inv_run: "initiate_contract start es \<Longrightarrow> handle_inv (ui (run es))"
  unfolding run_def by (rule handle_inv_run_from) (simp_all add: inv_start)

text \<open>
  The handlers store \<^verbatim>\<open>data.sessionId\<close> unchecked, so the contract cannot be dropped: a
  successful initiate response without a session id leads to the password step with no
  session id stored (where \<^verbatim>\<open>handlePasswordSubmit\<close> then returns early).
\<close>

lemma initiate_without_session_id:
  "step (ui (run [ChangeEmail ''a@x.com'', SubmitEmailForm,
     Settle 0 (Response (no_members\<lparr>data_success := True\<rparr>))])) = Password \<and>
   sessionId (ui (run [ChangeEmail ''a@x.com'', SubmitEmailForm,
     Settle 0 (Response (no_members\<lparr>data_success := True\<rparr>))])) = None"
  by (simp add: sample_defs handler_defs)


section \<open>The claims\<close>

text \<open>
  C10. In every state reachable from the initial state, at the password step (the
  specification's Secret) the second-factor input \<^verbatim>\<open>twoFACode\<close> is the empty string.
\<close>

theorem secret_step_has_empty_code:
  "step (ui (run es)) = Password \<Longrightarrow> twoFACode (ui (run es)) = []"
  using inv_run [of es] by (simp add: field_inv_def)

theorem secret_step_has_empty_code_witness:
  "step (ui (run (to_2fa_typed @ [ClickBack]))) = Password \<and>
   twoFACode (ui (run (to_2fa_typed @ [ClickBack]))) = []"
proof -
  have h: "step (ui (run (to_2fa_typed @ [ClickBack]))) = Password"
    by (simp add: sample_defs handler_defs)
  from secret_step_has_empty_code [OF h] h show ?thesis by simp
qed


text \<open>
  C4, as amended. In every state reachable from the initial state, at the 2FA step (the
  specification's SecondFactor) a challenge type is stored. The converse does not hold:
  no handler ever resets \<^verbatim>\<open>challengeType\<close>, so it stays set after \<^verbatim>\<open>handleBack\<close> and
  at the success step.
\<close>

theorem second_factor_has_challenge:
  "step (ui (run es)) = TwoFA \<Longrightarrow> challengeType (ui (run es)) \<noteq> None"
  using inv_run [of es] by (auto simp: field_inv_def truthy_def split: option.splits)

theorem second_factor_has_challenge_witness:
  "step (ui (run to_2fa_typed)) = TwoFA \<and> challengeType (ui (run to_2fa_typed)) \<noteq> None"
proof -
  have h: "step (ui (run to_2fa_typed)) = TwoFA"
    by (simp add: ui_to_2fa_typed)
  from second_factor_has_challenge [OF h] h show ?thesis by simp
qed

text \<open>
  C4 as stated fails: after going back from the 2FA step the page is at the password
  step and the challenge type received before is still stored.
\<close>

theorem challenge_iff_second_factor_counterexample:
  "step (ui (run (to_2fa @ [ClickBack]))) = Password \<and>
   challengeType (ui (run (to_2fa @ [ClickBack]))) = Some ''SMS''"
  by (simp add: sample_defs handler_defs)




text \<open>
  C5, as amended. In every state reachable from the initial state by a run in which each
  successful initiate response carries a session id, the session id is stored at every
  step other than email (the specification's Identifier). The converse does not hold:
  no handler ever resets \<^verbatim>\<open>sessionId\<close>, so it stays set after going back to the email
  step.
\<close>

theorem session_handle_after_identifier:
  "initiate_contract start es \<Longrightarrow> step (ui (run es)) \<noteq> Email \<Longrightarrow>
   sessionId (ui (run es)) \<noteq> None"
  using handle_inv_run [of es] by (simp add: handle_inv_def)

theorem session_handle_after_identifier_witness:
  "initiate_contract start to_2fa_typed \<and> step (ui (run to_2fa_typed)) \<noteq> Email \<and>
   sessionId (ui (run to_2fa_typed)) \<noteq> None"
proof -
  have c: "initiate_contract start to_2fa_typed"
    by (simp add: sample_defs handler_defs well_formed_initiate_def)
  have h: "step (ui (run to_2fa_typed)) \<noteq> Email"
    by (simp add: ui_to_2fa_typed)
  from session_handle_after_identifier [OF c h] c h show ?thesis by simp
qed

text \<open>
  C5 as stated fails: going back from the password step leaves the session id stored at
  the email step.
\<close>

theorem session_handle_iff_counterexample:
  "step (ui (run (to_password @ [ClickBack]))) = Email \<and>
   sessionId (ui (run (to_password @ [ClickBack]))) = Some ''s1''"
  by (simp add: sample_defs handler_defs)


text \<open>
  C2. For every verify-secret response handled for a submission made at the password
  step (the specification's Secret) of a reachable state, the state afterwards is the
  one the specification's three-way classification describes: a response with a
  challenge type stores the challenge, \<^verbatim>\<open>twoFACode\<close> is empty afterwards and the step is
  2FA; otherwise a successful response leads to the success step; otherwise the error is
  the server's message (or the fallback), the password is emptied and the step stays.
\<close>

theorem submitSecret_classification:
  "step (ui (run es)) = Password \<Longrightarrow> \<not> handlePasswordSubmit_returns (ui (run es)) \<Longrightarrow>
   spec_submitSecret_classified d (ui (run es))
     (snd (handlePasswordSubmit (Response d) (ui (run es))))"
proof -
  assume p: "step (ui (run es)) = Password"
    and r: "\<not> handlePasswordSubmit_returns (ui (run es))"
  have e: "twoFACode (ui (run es)) = []"
    using inv_run [of es] p by (simp add: field_inv_def)
  have "snd (handlePasswordSubmit (Response d) (ui (run es))) =
          handlePasswordSubmit_settle (Response d) (handlePasswordSubmit_start (ui (run es)))"
    using r by (simp add: handlePasswordSubmit_def)
  then show ?thesis using p e
    by (simp add: spec_submitSecret_classified_def handlePasswordSubmit_settle_def
        handlePasswordSubmit_try_def handlePasswordSubmit_start_def)
qed

theorem submitSecret_classification_witness:
  "step (ui (run to_password_typed)) = Password \<and>
   \<not> handlePasswordSubmit_returns (ui (run to_password_typed)) \<and>
   spec_submitSecret_classified response_B (ui (run to_password_typed))
     (snd (handlePasswordSubmit (Response response_B) (ui (run to_password_typed))))"
proof -
  have p: "step (ui (run to_password_typed)) = Password"
    by (simp add: ui_to_password_typed)
  have r: "\<not> handlePasswordSubmit_returns (ui (run to_password_typed))"
    by (simp add: ui_to_password_typed initial_def handlePasswordSubmit_returns_def
        trim_def is_whitespace_def truthy_def)
  from submitSecret_classification [OF p r, of response_B] p r show ?thesis by simp
qed

text \<open>
  C7. A transport failure (the \<^verbatim>\<open>catch\<close> branch) of any of the three submit handlers,
  once the handler has issued its request, leaves the generic retry message in the
  error, the step, the email, the password, the code and the session id as they were,
  and \<^verbatim>\<open>isLoading\<close> false.
\<close>

theorem transport_failure_keeps_state:
  "(\<not> handleEmailSubmit_returns s \<longrightarrow>
      spec_transport_failure s (snd (handleEmailSubmit Failure s))) \<and>
   (\<not> handlePasswordSubmit_returns s \<longrightarrow>
      spec_transport_failure s (snd (handlePasswordSubmit Failure s))) \<and>
   (\<not> handle2FASubmit_returns s \<longrightarrow>
      spec_transport_failure s (snd (handle2FASubmit Failure s)))"
  by (simp add: spec_transport_failure_def handleEmailSubmit_def handleEmailSubmit_settle_def
      handleEmailSubmit_try_def handleEmailSubmit_start_def
      handlePasswordSubmit_def handlePasswordSubmit_settle_def handlePasswordSubmit_try_def
      handlePasswordSubmit_start_def
      handle2FASubmit_def handle2FASubmit_settle_def handle2FASubmit_try_def
      handle2FASubmit_start_def)

lemma accepts_at_2fa_typed:
  "\<not> handleEmailSubmit_returns (ui (run to_2fa_typed))"
  "\<not> handlePasswordSubmit_returns (ui (run to_2fa_typed))"
  "\<not> handle2FASubmit_returns (ui (run to_2fa_typed))"
  by (simp_all add: ui_to_2fa_typed initial_def handleEmailSubmit_returns_def
      handlePasswordSubmit_returns_def handle2FASubmit_returns_def isPush_def
      trim_def is_whitespace_def truthy_def)

theorem transport_failure_keeps_state_witness:
  "\<not> handleEmailSubmit_returns (ui (run to_2fa_typed)) \<and>
   \<not> handlePasswordSubmit_returns (ui (run to_2fa_typed)) \<and>
   \<not> handle2FASubmit_returns (ui (run to_2fa_typed)) \<and>
   spec_transport_failure (ui (run to_2fa_typed))
     (snd (handleEmailSubmit Failure (ui (run to_2fa_typed)))) \<and>
   spec_transport_failure (ui (run to_2fa_typed))
     (snd (handlePasswordSubmit Failure (ui (run to_2fa_typed)))) \<and>
   spec_transport_failure (ui (run to_2fa_typed))
     (snd (handle2FASubmit Failure (ui (run to_2fa_typed))))"
  using transport_failure_keeps_state [of "ui (run to_2fa_typed)"] accepts_at_2fa_typed
  by blast

text \<open>
  C6, as amended. For a logical rejection (a response whose \<^verbatim>\<open>success\<close> is false and
  that carries no challenge type): at the password step the password is emptied and the
  error is the server's message or ``Invalid password or login failed''; at the 2FA
  step \<^verbatim>\<open>twoFACode\<close> keeps what was submitted and the error is the server's message or
  ``Invalid code''; the email is kept in both.
\<close>

theorem logical_rejection:
  "\<not> data_success d \<Longrightarrow> \<not> truthy (data_challengeType d) \<Longrightarrow>
   (\<not> handlePasswordSubmit_returns s \<longrightarrow>
      snd (handlePasswordSubmit (Response d) s) =
        s\<lparr>error := Some (or_else (data_message d) ''Invalid password or login failed''),
          password := [], isLoading := False\<rparr>) \<and>
   (\<not> handle2FASubmit_returns s \<longrightarrow>
      snd (handle2FASubmit (Response d) s) =
        s\<lparr>error := Some (or_else (data_message d) ''Invalid code''), isLoading := False\<rparr>)"
  by (simp add: handlePasswordSubmit_def handlePasswordSubmit_settle_def
      handlePasswordSubmit_try_def handlePasswordSubmit_start_def
      handle2FASubmit_def handle2FASubmit_settle_def handle2FASubmit_try_def
      handle2FASubmit_start_def)

lemma response_B_rejects:
  "\<not> data_success response_B" "\<not> truthy (data_challengeType response_B)"
  by (simp_all add: response_B_def no_members_def truthy_def)

theorem logical_rejection_witness:
  "\<not> data_success response_B \<and> \<not> truthy (data_challengeType response_B) \<and>
   \<not> handlePasswordSubmit_returns (ui (run to_2fa_typed)) \<and>
   \<not> handle2FASubmit_returns (ui (run to_2fa_typed)) \<and>
   snd (handlePasswordSubmit (Response response_B) (ui (run to_2fa_typed))) =
     (ui (run to_2fa_typed))\<lparr>error := Some ''wrong'', password := [], isLoading := False\<rparr> \<and>
   snd (handle2FASubmit (Response response_B) (ui (run to_2fa_typed))) =
     (ui (run to_2fa_typed))\<lparr>error := Some ''wrong'', isLoading := False\<rparr>"
proof -
  have m: "or_else (data_message response_B) ''Invalid password or login failed'' = ''wrong''"
    "or_else (data_message response_B) ''Invalid code'' = ''wrong''"
    by (simp_all add: response_B_def no_members_def or_else_def)
  from logical_rejection [OF response_B_rejects, of "ui (run to_2fa_typed)"]
    response_B_rejects accepts_at_2fa_typed m
  show ?thesis by simp
qed

text \<open>
  C6 as stated fails at the 2FA step: after a rejected code the input still holds the
  code that was submitted.
\<close>

theorem rejection_clears_code_counterexample:
  "step (ui (run to_2fa_typed)) = TwoFA \<and>
   \<not> data_success response_B \<and> \<not> truthy (data_challengeType response_B) \<and>
   twoFACode (ui (run (to_2fa_typed @ [Submit2FAForm, Settle 0 (Response response_B)])))
     = ''123456''"
  by (simp add: sample_defs handler_defs)


text \<open>
  C1, as amended. A verify-secret response that carries a challenge type stores the
  challenge and moves to the 2FA step whatever its \<^verbatim>\<open>success\<close> flag is (the state
  afterwards does not mention the flag). A verify-second-factor response is classified
  by its \<^verbatim>\<open>success\<close> flag first: when the flag is true the step becomes success and the
  stored challenge is left alone; only when it is false does a challenge type in the
  response replace the stored challenge, empty \<^verbatim>\<open>twoFACode\<close> and keep the step. An
  initiate response is handled without reading its challenge members.
\<close>

theorem challenge_precedence:
  "(\<not> handlePasswordSubmit_returns s \<and> truthy (data_challengeType d) \<longrightarrow>
      snd (handlePasswordSubmit (Response d) s) =
        s\<lparr>error := None, challengeType := data_challengeType d,
          challengeMetadata := data_challengeMetadata d, step := TwoFA,
          isLoading := False\<rparr>) \<and>
   (\<not> handle2FASubmit_returns s \<and> data_success d \<longrightarrow>
      snd (handle2FASubmit (Response d) s) =
        s\<lparr>error := None, step := Success, isLoading := False\<rparr>) \<and>
   (\<not> handle2FASubmit_returns s \<and> \<not> data_success e \<and> truthy (data_challengeType e) \<longrightarrow>
      challengeType (snd (handle2FASubmit (Response e) s)) = data_challengeType e \<and>
      challengeMetadata (snd (handle2FASubmit (Response e) s)) = data_challengeMetadata e \<and>
      twoFACode (snd (handle2FASubmit (Response e) s)) = [] \<and>
      step (snd (handle2FASubmit (Response e) s)) = step s) \<and>
   handleEmailSubmit (Response (d\<lparr>data_challengeType := c, data_challengeMetadata := m\<rparr>)) s =
     handleEmailSubmit (Response d) s"
  by (simp add: handlePasswordSubmit_def handlePasswordSubmit_settle_def
      handlePasswordSubmit_try_def handlePasswordSubmit_start_def
      handle2FASubmit_def handle2FASubmit_settle_def handle2FASubmit_try_def
      handle2FASubmit_start_def handleEmailSubmit_def handleEmailSubmit_settle_def
      handleEmailSubmit_try_def Let_def)

lemma sample_challenges:
  "truthy (data_challengeType response_success_challenge)"
  "data_success response_success_challenge"
  "truthy (data_challengeType response_C)"
  "\<not> data_success response_C"
  by (simp_all add: response_success_challenge_def response_C_def no_members_def truthy_def)

theorem challenge_precedence_witness:
  "\<not> handlePasswordSubmit_returns (ui (run to_2fa_typed)) \<and>
   \<not> handle2FASubmit_returns (ui (run to_2fa_typed)) \<and>
   truthy (data_challengeType response_success_challenge) \<and>
   data_success response_success_challenge \<and>
   \<not> data_success response_C \<and> truthy (data_challengeType response_C) \<and>
   snd (handlePasswordSubmit (Response response_success_challenge) (ui (run to_2fa_typed))) =
     (ui (run to_2fa_typed))\<lparr>error := None,
        challengeType := data_challengeType response_success_challenge,
        challengeMetadata := data_challengeMetadata response_success_challenge,
        step := TwoFA, isLoading := False\<rparr> \<and>
   snd (handle2FASubmit (Response response_success_challenge) (ui (run to_2fa_typed))) =
     (ui (run to_2fa_typed))\<lparr>error := None, step := Success, isLoading := False\<rparr> \<and>
   challengeType (snd (handle2FASubmit (Response response_C) (ui (run to_2fa_typed)))) =
     data_challengeType response_C \<and>
   twoFACode (snd (handle2FASubmit (Response response_C) (ui (run to_2fa_typed)))) = [] \<and>
   step (snd (handle2FASubmit (Response response_C) (ui (run to_2fa_typed)))) =
     step (ui (run to_2fa_typed))"
  using challenge_precedence [of "ui (run to_2fa_typed)" response_success_challenge response_C]
    accepts_at_2fa_typed sample_challenges
  by blast

text \<open>
  C1 as stated fails for two of the three calls. A verify-second-factor response with
  \<^verbatim>\<open>success\<close> true and challenge type EMAIL ends at the success step with the old
  challenge (SMS) still stored; an initiate response with a challenge type leads to the
  password step and stores no challenge.
\<close>

theorem challenge_before_success_counterexample:
  "step (ui (run to_2fa_typed)) = TwoFA \<and>
   data_success response_success_challenge \<and>
   data_challengeType response_success_challenge = Some ''EMAIL'' \<and>
   step (ui (run (to_2fa_typed @
     [Submit2FAForm, Settle 0 (Response response_success_challenge)]))) = Success \<and>
   challengeType (ui (run (to_2fa_typed @
     [Submit2FAForm, Settle 0 (Response response_success_challenge)]))) = Some ''SMS'' \<and>
   data_challengeType response_A_challenge = Some ''SMS'' \<and>
   step (ui (run [ChangeEmail ''a@x.com'', SubmitEmailForm,
     Settle 0 (Response response_A_challenge)])) = Password \<and>
   challengeType (ui (run [ChangeEmail ''a@x.com'', SubmitEmailForm,
     Settle 0 (Response response_A_challenge)])) = None"
  by (simp add: sample_defs handler_defs)

text \<open>
  C8. A submit handler invoked while \<^verbatim>\<open>isLoading\<close> is true issues no request and
  returns the state unchanged; a handler that has issued its request leaves \<^verbatim>\<open>isLoading\<close>
  false whatever the outcome; and in every reachable state of the transition system at
  most one call is pending, \<^verbatim>\<open>isLoading\<close> being true exactly while one is.
\<close>

theorem inFlight_gate:
  "(isLoading s \<longrightarrow>
      handleEmailSubmit out s = (None, s) \<and>
      handlePasswordSubmit out s = (None, s) \<and>
      handle2FASubmit out s = (None, s)) \<and>
   (fst (handleEmailSubmit out t) \<noteq> None \<longrightarrow> \<not> isLoading (snd (handleEmailSubmit out t))) \<and>
   (fst (handlePasswordSubmit out t) \<noteq> None \<longrightarrow>
      \<not> isLoading (snd (handlePasswordSubmit out t))) \<and>
   (fst (handle2FASubmit out t) \<noteq> None \<longrightarrow> \<not> isLoading (snd (handle2FASubmit out t))) \<and>
   length (pending (run es)) \<le> 1 \<and>
   isLoading (ui (run es)) = (pending (run es) \<noteq> [])"
proof -
  have a: "isLoading s \<longrightarrow>
      handleEmailSubmit out s = (None, s) \<and>
      handlePasswordSubmit out s = (None, s) \<and>
      handle2FASubmit out s = (None, s)"
    by (simp add: handleEmailSubmit_def handlePasswordSubmit_def handle2FASubmit_def
        returns_isLoading)
  have b: "fst (handleEmailSubmit out t) \<noteq> None \<longrightarrow>
             \<not> isLoading (snd (handleEmailSubmit out t))"
    by (simp add: handleEmailSubmit_def handleEmailSubmit_settle_def)
  have c: "fst (handlePasswordSubmit out t) \<noteq> None \<longrightarrow>
             \<not> isLoading (snd (handlePasswordSubmit out t))"
    by (simp add: handlePasswordSubmit_def handlePasswordSubmit_settle_def)
  have d: "fst (handle2FASubmit out t) \<noteq> None \<longrightarrow>
             \<not> isLoading (snd (handle2FASubmit out t))"
    by (simp add: handle2FASubmit_def handle2FASubmit_settle_def)
  have g: "gate_inv (run es)"
    using inv_run [of es] by simp
  then have e: "length (pending (run es)) \<le> 1"
    and f: "isLoading (ui (run es)) = (pending (run es) \<noteq> [])"
    by (auto simp: gate_inv_def)
  from a b c d e f show ?thesis by blast
qed

theorem inFlight_gate_witness:
  "isLoading (ui (run (to_password_typed @ [SubmitPasswordForm]))) \<and>
   handleEmailSubmit Failure (ui (run (to_password_typed @ [SubmitPasswordForm]))) =
     (None, ui (run (to_password_typed @ [SubmitPasswordForm]))) \<and>
   handlePasswordSubmit Failure (ui (run (to_password_typed @ [SubmitPasswordForm]))) =
     (None, ui (run (to_password_typed @ [SubmitPasswordForm]))) \<and>
   handle2FASubmit Failure (ui (run (to_password_typed @ [SubmitPasswordForm]))) =
     (None, ui (run (to_password_typed @ [SubmitPasswordForm]))) \<and>
   fst (handleEmailSubmit Failure (ui (run to_2fa_typed))) \<noteq> None \<and>
   fst (handlePasswordSubmit Failure (ui (run to_2fa_typed))) \<noteq> None \<and>
   fst (handle2FASubmit Failure (ui (run to_2fa_typed))) \<noteq> None \<and>
   \<not> isLoading (snd (handleEmailSubmit Failure (ui (run to_2fa_typed)))) \<and>
   \<not> isLoading (snd (handlePasswordSubmit Failure (ui (run to_2fa_typed)))) \<and>
   \<not> isLoading (snd (handle2FASubmit Failure (ui (run to_2fa_typed)))) \<and>
   length (pending (run (to_password_typed @ [SubmitPasswordForm, SubmitPasswordForm]))) \<le> 1"
proof -
  have l: "isLoading (ui (run (to_password_typed @ [SubmitPasswordForm])))"
    by (simp add: sample_defs handler_defs)
  have i: "fst (handleEmailSubmit Failure (ui (run to_2fa_typed))) \<noteq> None"
    "fst (handlePasswordSubmit Failure (ui (run to_2fa_typed))) \<noteq> None"
    "fst (handle2FASubmit Failure (ui (run to_2fa_typed))) \<noteq> None"
    using accepts_at_2fa_typed
    by (simp_all add: handleEmailSubmit_def handlePasswordSubmit_def handle2FASubmit_def)
  from inFlight_gate [of "ui (run (to_password_typed @ [SubmitPasswordForm]))" Failure
      "ui (run to_2fa_typed)" "to_password_typed @ [SubmitPasswordForm, SubmitPasswordForm]"]
    l i
  show ?thesis by blast
qed

text \<open>
  C9, as amended. With a non-blank email at the email step (the specification's
  Identifier) and nothing in flight, a response whose \<^verbatim>\<open>success\<close> is true makes the
  handler post the initiate request, store the session id member of the response and
  move to the password step, whatever \<^verbatim>\<open>status\<close> it reports; and no run in which each
  successful initiate response carries a session id reaches the password step (the
  specification's Secret) without a stored session id.
\<close>

theorem initiate_success:
  "(step s = Email \<and> trim (email s) \<noteq> [] \<and> \<not> isLoading s \<and> data_success d \<longrightarrow>
      fst (handleEmailSubmit (Response d) s) = Some (PostInitiate (email s)) \<and>
      sessionId (snd (handleEmailSubmit (Response d) s)) = data_sessionId d \<and>
      step (snd (handleEmailSubmit (Response d) s)) = Password) \<and>
   (initiate_contract start es \<and> step (ui (run es)) = Password \<longrightarrow>
      sessionId (ui (run es)) \<noteq> None)"
proof -
  have a: "step s = Email \<and> trim (email s) \<noteq> [] \<and> \<not> isLoading s \<and> data_success d \<longrightarrow>
      fst (handleEmailSubmit (Response d) s) = Some (PostInitiate (email s)) \<and>
      sessionId (snd (handleEmailSubmit (Response d) s)) = data_sessionId d \<and>
      step (snd (handleEmailSubmit (Response d) s)) = Password"
    by (simp add: handleEmailSubmit_def handleEmailSubmit_returns_def
        handleEmailSubmit_request_def handleEmailSubmit_settle_def handleEmailSubmit_try_def
        handleEmailSubmit_start_def Let_def)
  have b: "initiate_contract start es \<and> step (ui (run es)) = Password \<longrightarrow>
      sessionId (ui (run es)) \<noteq> None"
    using handle_inv_run [of es] by (auto simp: handle_inv_def)
  from a b show ?thesis by blast
qed

theorem initiate_success_witness:
  "step (ui (run [ChangeEmail ''a@x.com''])) = Email \<and>
   trim (email (ui (run [ChangeEmail ''a@x.com'']))) \<noteq> [] \<and>
   \<not> isLoading (ui (run [ChangeEmail ''a@x.com''])) \<and>
   data_success response_A \<and>
   initiate_contract start to_password \<and> step (ui (run to_password)) = Password \<and>
   fst (handleEmailSubmit (Response response_A) (ui (run [ChangeEmail ''a@x.com'']))) =
     Some (PostInitiate (email (ui (run [ChangeEmail ''a@x.com''])))) \<and>
   sessionId (snd (handleEmailSubmit (Response response_A) (ui (run [ChangeEmail ''a@x.com'']))))
     = data_sessionId response_A \<and>
   step (snd (handleEmailSubmit (Response response_A) (ui (run [ChangeEmail ''a@x.com'']))))
     = Password \<and>
   sessionId (ui (run to_password)) \<noteq> None"
proof -
  have h: "step (ui (run [ChangeEmail ''a@x.com''])) = Email"
    "trim (email (ui (run [ChangeEmail ''a@x.com'']))) \<noteq> []"
    "\<not> isLoading (ui (run [ChangeEmail ''a@x.com'']))"
    "data_success response_A"
    by (simp_all add: sample_defs)
  have k: "initiate_contract start to_password" "step (ui (run to_password)) = Password"
    by (simp_all add: sample_defs handler_defs well_formed_initiate_def)
  from initiate_success [of "ui (run [ChangeEmail ''a@x.com''])" response_A to_password] h k
  show ?thesis by blast
qed

text \<open>
  C9 as stated fails: \<^verbatim>\<open>handleEmailSubmit\<close> stores \<^verbatim>\<open>data.sessionId\<close> without looking at
  it. For the non-blank email ``a@x.com'' submitted at the email step, a response whose
  \<^verbatim>\<open>success\<close> is true and that has no session id moves the page to the password step
  with no session id stored; the guard of \<^verbatim>\<open>handlePasswordSubmit\<close> then returns early
  on every password.
\<close>

theorem secret_without_handle_counterexample:
  "step (ui (run [ChangeEmail ''a@x.com''])) = Email \<and>
   trim (email (ui (run [ChangeEmail ''a@x.com'']))) \<noteq> [] \<and>
   data_success (no_members\<lparr>data_success := True\<rparr>) \<and>
   data_sessionId (no_members\<lparr>data_success := True\<rparr>) = None \<and>
   step (ui (run [ChangeEmail ''a@x.com'', SubmitEmailForm,
     Settle 0 (Response (no_members\<lparr>data_success := True\<rparr>))])) = Password \<and>
   sessionId (ui (run [ChangeEmail ''a@x.com'', SubmitEmailForm,
     Settle 0 (Response (no_members\<lparr>data_success := True\<rparr>))])) = None \<and>
   handlePasswordSubmit_returns (ui (run [ChangeEmail ''a@x.com'', SubmitEmailForm,
     Settle 0 (Response (no_members\<lparr>data_success := True\<rparr>)), ChangePassword ''pw'']))"
  by (simp add: sample_defs handler_defs)

end
